theory Spec2Isabelle
  imports Main "HOL-Library.Sublist"
begin

section \<open>The build descriptor of qNoise's Python binding (python/setup.py)\<close>

text \<open>
  The script reads two things from its surroundings: the platform identifier
  \<^verbatim>\<open>sys.platform\<close> and the header directory answered by
  \<^verbatim>\<open>pybind11.get_include()\<close>. Both are strings; they are the fields of the
  environment the script is evaluated in.
\<close>

record environment =
  sys_platform :: string
  pybind11_get_include :: string

text \<open>
  \<^verbatim>\<open>Extension(name, sources=..., include_dirs=..., language=..., extra_compile_args=...)\<close>:
  the five arguments the script passes to the constructor, as the fields of a record.
\<close>

record Extension =
  name :: string
  sources :: "string list"
  include_dirs :: "string list"
  language :: string
  extra_compile_args :: "string list"

text \<open>
  \<^verbatim>\<open>
  ext_modules = [
      Extension(
          "qnoise._qnoise",
          sources=["qnoise/qNoisePy.cpp", "../cpp/qNoise.cpp"],
          include_dirs=[pybind11.get_include(), "../cpp"],
          language="c++",
          extra_compile_args=["-std=c++11", "-O3", "-Wall", "-fPIC"]
              if sys.platform != "win32" else ["/std:c++14", "/O2"],
      ),
  ]
  \<close>
\<close>

definition ext_modules :: "environment \<Rightarrow> Extension list" where
  "ext_modules env =
     [\<lparr> name = ''qnoise._qnoise'',
        sources = [''qnoise/qNoisePy.cpp'', ''../cpp/qNoise.cpp''],
        include_dirs = [pybind11_get_include env, ''../cpp''],
        language = ''c++'',
        extra_compile_args =
          (if sys_platform env \<noteq> ''win32''
           then [''-std=c++11'', ''-O3'', ''-Wall'', ''-fPIC'']
           else [''/std:c++14'', ''/O2'']) \<rparr>]"

text \<open>
  \<^verbatim>\<open>setup(ext_modules=ext_modules, zip_safe=False)\<close>: the keyword arguments the
  script hands to the build step.
\<close>

record setup_kwargs =
  kw_ext_modules :: "Extension list"
  kw_zip_safe :: bool

definition setup_call :: "environment \<Rightarrow> setup_kwargs" where
  "setup_call env = \<lparr> kw_ext_modules = ext_modules env, kw_zip_safe = False \<rparr>"

section \<open>Compiler flags\<close>

text \<open>
  C1. On every platform identifier other than Windows' (\<^verbatim>\<open>sys.platform\<close> is
  \<^verbatim>\<open>"win32"\<close> on Windows and on nothing else), the extension module's compiler flags
  are exactly the Unix list \<^verbatim>\<open>["-std=c++11", "-O3", "-Wall", "-fPIC"]\<close>, in that order.
\<close>

theorem unix_flags_on_non_windows:
  "sys_platform env \<noteq> ''win32'' \<Longrightarrow>
   map extra_compile_args (ext_modules env) = [[''-std=c++11'', ''-O3'', ''-Wall'', ''-fPIC'']]"
  by (simp add: ext_modules_def)

theorem unix_flags_on_non_windows_witness:
  "sys_platform \<lparr> sys_platform = ''linux'', pybind11_get_include = ''/usr/include/pybind11'' \<rparr>
     \<noteq> ''win32'' \<and>
   map extra_compile_args
     (ext_modules \<lparr> sys_platform = ''linux'', pybind11_get_include = ''/usr/include/pybind11'' \<rparr>)
     = [[''-std=c++11'', ''-O3'', ''-Wall'', ''-fPIC'']]"
  using unix_flags_on_non_windows
    [of "\<lparr> sys_platform = ''linux'', pybind11_get_include = ''/usr/include/pybind11'' \<rparr>"]
  by simp

text \<open>
  C2. On Windows, where \<^verbatim>\<open>sys.platform\<close> is \<^verbatim>\<open>"win32"\<close>, the extension module's
  compiler flags are exactly the Windows list \<^verbatim>\<open>["/std:c++14", "/O2"]\<close>, in that order.
\<close>

theorem windows_flags_on_windows:
  "sys_platform env = ''win32'' \<Longrightarrow>
   map extra_compile_args (ext_modules env) = [[''/std:c++14'', ''/O2'']]"
  unfolding ext_modules_def by simp

theorem windows_flags_on_windows_witness:
  "sys_platform \<lparr> sys_platform = ''win32'', pybind11_get_include = ''C:/Python/Include'' \<rparr>
     = ''win32'' \<and>
   map extra_compile_args
     (ext_modules \<lparr> sys_platform = ''win32'', pybind11_get_include = ''C:/Python/Include'' \<rparr>)
     = [[''/std:c++14'', ''/O2'']]"
proof -
  let ?env = "\<lparr> sys_platform = ''win32'', pybind11_get_include = ''C:/Python/Include'' \<rparr>"
  have p: "sys_platform ?env = ''win32''" by simp
  from p windows_flags_on_windows [OF p] show ?thesis by (rule conjI)
qed

text \<open>
  C3. The selected flags are a function of the platform identifier alone: two evaluations
  of the script in environments with the same \<^verbatim>\<open>sys.platform\<close> select the same
  flags, whatever else differs between the environments (here, the pybind11 header
  directory, the script's only other input).
\<close>

theorem flags_depend_on_platform_only:
  assumes "sys_platform env1 = sys_platform env2"
  shows "map extra_compile_args (ext_modules env1) = map extra_compile_args (ext_modules env2)"
proof -
  have sel: "map extra_compile_args (ext_modules e)
      = [if sys_platform e \<noteq> ''win32''
         then [''-std=c++11'', ''-O3'', ''-Wall'', ''-fPIC''] else [''/std:c++14'', ''/O2'']]"
    for e
    by (simp add: ext_modules_def)
  from assms show ?thesis by (simp only: sel)
qed

theorem flags_depend_on_platform_only_witness:
  "sys_platform \<lparr> sys_platform = ''darwin'', pybind11_get_include = ''/opt/a/include'' \<rparr>
     = sys_platform \<lparr> sys_platform = ''darwin'', pybind11_get_include = ''/home/b/include'' \<rparr> \<and>
   \<lparr> sys_platform = ''darwin'', pybind11_get_include = ''/opt/a/include'' \<rparr>
     \<noteq> \<lparr> sys_platform = ''darwin'', pybind11_get_include = ''/home/b/include'' \<rparr> \<and>
   map extra_compile_args
     (ext_modules \<lparr> sys_platform = ''darwin'', pybind11_get_include = ''/opt/a/include'' \<rparr>)
     = map extra_compile_args
     (ext_modules \<lparr> sys_platform = ''darwin'', pybind11_get_include = ''/home/b/include'' \<rparr>)"
proof -
  let ?a = "\<lparr> sys_platform = ''darwin'', pybind11_get_include = ''/opt/a/include'' \<rparr>"
  let ?b = "\<lparr> sys_platform = ''darwin'', pybind11_get_include = ''/home/b/include'' \<rparr>"
  have same: "sys_platform ?a = sys_platform ?b" by simp
  have diff: "?a \<noteq> ?b" by simp
  note flags = flags_depend_on_platform_only [OF same]
  from same diff flags show ?thesis by blast
qed

text \<open>
  C4. For every platform identifier the selection yields a flag list, and that list is one
  of the two predefined ones, which differ from each other: the Unix list or the Windows
  list. The conditional expression has no third branch and no operation that can raise, so
  the selection has no error outcome.
\<close>

theorem flags_one_of_two:
  "(map extra_compile_args (ext_modules env) = [[''-std=c++11'', ''-O3'', ''-Wall'', ''-fPIC'']]
    \<or> map extra_compile_args (ext_modules env) = [[''/std:c++14'', ''/O2'']])
   \<and> [''-std=c++11'', ''-O3'', ''-Wall'', ''-fPIC''] \<noteq> [''/std:c++14'', ''/O2'']"
proof (cases "sys_platform env = ''win32''")
  case True
  then show ?thesis by (simp add: ext_modules_def)
next
  case False
  then show ?thesis by (simp add: ext_modules_def)
qed

text \<open>
  C8. The Windows decision is the exact string comparison
  \<^verbatim>\<open>sys.platform != "win32"\<close>: the Windows list is selected if and only if the
  identifier equals \<^verbatim>\<open>"win32"\<close> character for character, and the Unix list if and
  only if it does not. In particular \<^verbatim>\<open>"cygwin"\<close>, \<^verbatim>\<open>"msys"\<close> and the
  differently cased \<^verbatim>\<open>"Win32"\<close> get the Unix list.
\<close>

theorem win32_exact_comparison:
  "map extra_compile_args (ext_modules env)
     = [if sys_platform env = ''win32'' then [''/std:c++14'', ''/O2'']
        else [''-std=c++11'', ''-O3'', ''-Wall'', ''-fPIC'']]
   \<and> (map extra_compile_args (ext_modules env) = [[''/std:c++14'', ''/O2'']])
       = (sys_platform env = ''win32'')
   \<and> (map extra_compile_args (ext_modules env) = [[''-std=c++11'', ''-O3'', ''-Wall'', ''-fPIC'']])
       = (sys_platform env \<noteq> ''win32'')
   \<and> map extra_compile_args (ext_modules (env\<lparr>sys_platform := ''cygwin''\<rparr>))
       = [[''-std=c++11'', ''-O3'', ''-Wall'', ''-fPIC'']]
   \<and> map extra_compile_args (ext_modules (env\<lparr>sys_platform := ''msys''\<rparr>))
       = [[''-std=c++11'', ''-O3'', ''-Wall'', ''-fPIC'']]
   \<and> map extra_compile_args (ext_modules (env\<lparr>sys_platform := ''Win32''\<rparr>))
       = [[''-std=c++11'', ''-O3'', ''-Wall'', ''-fPIC'']]
   \<and> map extra_compile_args (ext_modules (env\<lparr>sys_platform := ''win32''\<rparr>))
       = [[''/std:c++14'', ''/O2'']]"
  by (simp add: ext_modules_def)

section \<open>Sources, include paths and module name\<close>

text \<open>
  C5. In every environment the extension module declares exactly two source paths. The
  first, \<^verbatim>\<open>"qnoise/qNoisePy.cpp"\<close>, lies in the binding layer's own directory and
  ends in \<^verbatim>\<open>"qNoisePy.cpp"\<close>; the second, \<^verbatim>\<open>"../cpp/qNoise.cpp"\<close>, lies in the
  sibling native-source directory and ends in \<^verbatim>\<open>"qNoise.cpp"\<close>. Neither path has the
  other's suffix or directory.
\<close>

theorem sources_two_paths:
  "map sources (ext_modules env) = [[''qnoise/qNoisePy.cpp'', ''../cpp/qNoise.cpp'']]
   \<and> map (length \<circ> sources) (ext_modules env) = [2]
   \<and> map (map (suffix ''qNoisePy.cpp'') \<circ> sources) (ext_modules env) = [[True, False]]
   \<and> map (map (suffix ''qNoise.cpp'') \<circ> sources) (ext_modules env) = [[False, True]]
   \<and> map (map (prefix ''qnoise/'') \<circ> sources) (ext_modules env) = [[True, False]]
   \<and> map (map (prefix ''../cpp/'') \<circ> sources) (ext_modules env) = [[False, True]]"
  by (simp add: ext_modules_def suffix_to_prefix)

text \<open>
  C6. In every environment the include search path has exactly two entries: the location
  answered by \<^verbatim>\<open>pybind11.get_include()\<close> and the native-core header directory
  \<^verbatim>\<open>"../cpp"\<close>.
\<close>

theorem include_dirs_two_entries:
  "map include_dirs (ext_modules env) = [[pybind11_get_include env, ''../cpp'']]
   \<and> map (length \<circ> include_dirs) (ext_modules env) = [2]"
  unfolding ext_modules_def by simp

text \<open>
  C7. The module identifier is \<^verbatim>\<open>"qnoise._qnoise"\<close> in every environment: the package
  name \<^verbatim>\<open>qnoise\<close>, one dot, and the module name \<^verbatim>\<open>_qnoise\<close>, neither of which
  contains a dot itself. Two environments never disagree on it.
\<close>

theorem module_name_fixed:
  "map name (ext_modules env) = [''qnoise._qnoise'']
   \<and> map name (ext_modules env) = [''qnoise'' @ ''.'' @ ''_qnoise'']
   \<and> CHR ''.'' \<notin> set ''qnoise'' \<and> CHR ''.'' \<notin> set ''_qnoise''
   \<and> map name (ext_modules env) = map name (ext_modules env')"
  by (simp add: ext_modules_def)

section \<open>The call of the build step\<close>

text \<open>
  C9. In every environment the list handed to the build step as \<^verbatim>\<open>ext_modules\<close> has
  exactly one entry, and that entry's language is \<^verbatim>\<open>"c++"\<close>.
\<close>

theorem one_cxx_extension:
  "length (kw_ext_modules (setup_call env)) = 1
   \<and> map language (kw_ext_modules (setup_call env)) = [''c++'']"
proof
  show "length (kw_ext_modules (setup_call env)) = 1"
    by (simp add: setup_call_def ext_modules_def)
  show "map language (kw_ext_modules (setup_call env)) = [''c++'']"
    by (simp add: setup_call_def ext_modules_def)
qed

text \<open>
  C10. In every environment the script calls the build step with
  \<^verbatim>\<open>zip_safe=False\<close>.
\<close>

theorem zip_safe_false:
  "kw_zip_safe (setup_call env) = False"
  by (simp add: setup_call_def)

end
